theory Spec2Isabelle
  imports Main
begin

section \<open>The talking-avatar endpoint of \<^verbatim>\<open>server.js\<close>\<close>

text \<open>
  This theory embeds the handler of \<^verbatim>\<open>POST /api/did-talk\<close> (\<^verbatim>\<open>server.js\<close>, lines
  97 to 185): the validation of the request, the creation of the remote job, the
  polling loop and the assembly of the reply. The handler is an \<^verbatim>\<open>async\<close> function;
  every \<^verbatim>\<open>await\<close> is sequential, so one run is a sequence of events (outbound calls,
  waits, reply statements) together with the way the run ends.
\<close>

subsection \<open>JavaScript values\<close>

text \<open>
  The values that \<^verbatim>\<open>JSON.parse\<close> produces. \<^verbatim>\<open>undefined\<close> is not one of them: a
  possibly undefined value has type \<open>jsval option\<close> and \<open>None\<close> is \<^verbatim>\<open>undefined\<close>.
  An object is the list of its own properties, each key once. A number is kept as
  an integer: the handler only ever tests a number for zero and otherwise passes
  it on.
\<close>

datatype jsval =
    JNull
  | JBool bool
  | JNum int
  | JStr string
  | JArr "jsval list"
  | JObj "(string \<times> jsval) list"

text \<open>What the runtime throws and what an awaited promise rejects with.\<close>

datatype js_error =
    Rejected string
      \<comment> \<open>\<^verbatim>\<open>fetch\<close>, \<^verbatim>\<open>text()\<close> or \<^verbatim>\<open>json()\<close> rejects; the string is \<^verbatim>\<open>err.message\<close>\<close>
  | BodyUnusable
      \<comment> \<open>the \<^verbatim>\<open>TypeError\<close> of reading a response body a second time\<close>
  | HeadersSent
      \<comment> \<open>\<^verbatim>\<open>ERR_HTTP_HEADERS_SENT\<close>: a reply statement after a reply has gone out\<close>
  | NullProperty string
      \<comment> \<open>the \<^verbatim>\<open>TypeError\<close> of reading a property of \<^verbatim>\<open>null\<close> or \<^verbatim>\<open>undefined\<close>\<close>

text \<open>\<^verbatim>\<open>!x\<close> is \<open>\<not> truthy x\<close>; \<^verbatim>\<open>undefined\<close> is falsy.\<close>

fun truthy :: "jsval \<Rightarrow> bool" where
  "truthy JNull = False"
| "truthy (JBool b) = b"
| "truthy (JNum n) = (n \<noteq> 0)"
| "truthy (JStr s) = (s \<noteq> [])"
| "truthy (JArr xs) = True"
| "truthy (JObj kvs) = True"

fun truthy_opt :: "jsval option \<Rightarrow> bool" where
  "truthy_opt None = False"
| "truthy_opt (Some v) = truthy v"

text \<open>
  \<^verbatim>\<open>x.k\<close> for the keys the handler reads (\<^verbatim>\<open>text\<close>, \<^verbatim>\<open>id\<close>, \<^verbatim>\<open>status\<close>,
  \<^verbatim>\<open>result_url\<close>; none of them is inherited from a prototype): it throws on
  \<^verbatim>\<open>null\<close> and \<^verbatim>\<open>undefined\<close>, looks the key up in an object and is \<^verbatim>\<open>undefined\<close> on
  every other value.
\<close>

fun get_prop :: "jsval option \<Rightarrow> string \<Rightarrow> js_error + jsval option" where
  "get_prop None k = Inl (NullProperty k)"
| "get_prop (Some JNull) k = Inl (NullProperty k)"
| "get_prop (Some (JObj kvs)) k = Inr (map_of kvs k)"
| "get_prop (Some v) k = Inr None"

text \<open>\<^verbatim>\<open>a ?? b\<close>: \<open>b\<close> when \<open>a\<close> is \<^verbatim>\<open>undefined\<close> or \<^verbatim>\<open>null\<close>.\<close>

fun nullish :: "jsval option \<Rightarrow> jsval option \<Rightarrow> jsval option" where
  "nullish None b = b"
| "nullish (Some JNull) b = b"
| "nullish (Some v) b = Some v"

subsection \<open>The configuration and the remote provider\<close>

text \<open>\<^verbatim>\<open>process.env\<close>: an unset variable is \<open>None\<close>.\<close>

record env =
  DID_API_KEY :: "string option"
  DID_SOURCE_URL :: "string option"

fun env_truthy :: "string option \<Rightarrow> bool" where
  "env_truthy None = False"
| "env_truthy (Some s) = (s \<noteq> [])"

text \<open>
  A \<^verbatim>\<open>Response\<close> of \<^verbatim>\<open>fetch\<close>: its \<^verbatim>\<open>ok\<close> flag and what \<^verbatim>\<open>text()\<close> and \<^verbatim>\<open>json()\<close>
  give when they are the first to read the body (\<open>Inl m\<close>: the promise rejects with
  message \<open>m\<close>, as \<^verbatim>\<open>json()\<close> does on a body that is not JSON). The body can be read
  once: see \<open>read_text\<close> and \<open>read_json\<close>.
\<close>

record response =
  ok :: bool
  body_text :: "string + string"
  body_json :: "string + jsval"

datatype fetch_result =
    NetworkError string
  | Responds response

text \<open>
  The provider as one run meets it: the outcome of the job-creation call and the
  outcome of the \<open>k\<close>-th status query (counted from 0), for every \<open>k\<close>.
\<close>

record world =
  create_result :: fetch_result
  status_results :: "nat \<Rightarrow> fetch_result"

subsection \<open>Events and the state of one run\<close>

text \<open>The body that \<^verbatim>\<open>JSON.stringify\<close> turns into the job-creation request.\<close>

record payload =
  source_url :: string
  script_type :: string
  provider_type :: string
  voice_id :: string
  script_input :: jsval

datatype detail =
    DText string
  | DValue "jsval option"
  | DMessage js_error
      \<comment> \<open>\<^verbatim>\<open>err?.message ?? String(err)\<close>\<close>

datatype reply_body =
    ErrorOnly string
  | ErrorDetail string detail
  | VideoUrl "jsval option"

datatype event =
    CreateTalk string payload
      \<comment> \<open>\<^verbatim>\<open>POST https://api.d-id.com/talks\<close> with the key and the payload\<close>
  | Wait nat
      \<comment> \<open>a \<^verbatim>\<open>setTimeout\<close> of that many milliseconds, awaited\<close>
  | StatusQuery string "jsval option"
      \<comment> \<open>\<^verbatim>\<open>GET https://api.d-id.com/talks/${talkId}\<close> with the key\<close>
  | Respond nat reply_body
      \<comment> \<open>a reply statement that sends the reply: HTTP status and JSON body\<close>
  | RespondRefused nat reply_body
      \<comment> \<open>a reply statement executed after a reply has gone out: it throws\<close>

record hstate =
  events :: "event list"
  headersSent :: bool
  bodyUsed :: bool
    \<comment> \<open>of \<^verbatim>\<open>createResponse\<close>\<close>

definition start :: hstate where
  "start = \<lparr>events = [], headersSent = False, bodyUsed = False\<rparr>"

definition emit :: "event list \<Rightarrow> hstate \<Rightarrow> hstate" where
  "emit es s = s\<lparr>events := events s @ es\<rparr>"

text \<open>
  \<^verbatim>\<open>res.status(c).json(b)\<close>; \<^verbatim>\<open>res.json(b)\<close> is the case \<open>c = 200\<close>, the status a
  reply has when none is set. Express sets the headers of the reply when it sends
  the body, and Node refuses to set a header once the headers have gone out
  (\<^verbatim>\<open>ERR_HTTP_HEADERS_SENT\<close>), so the first reply statement of a run sends its reply
  and every later one throws. The later ones are recorded too, as \<open>RespondRefused\<close>.
\<close>

definition respond :: "nat \<Rightarrow> reply_body \<Rightarrow> hstate \<Rightarrow> (js_error + unit) \<times> hstate" where
  "respond c b s =
     (if headersSent s then (Inl HeadersSent, emit [RespondRefused c b] s)
      else (Inr (), (emit [Respond c b] s)\<lparr>headersSent := True\<rparr>))"

text \<open>
  \<^verbatim>\<open>createResponse.text()\<close> and \<^verbatim>\<open>createResponse.json()\<close>. In the Fetch standard
  a body is a stream that is consumed by the first read: either method, called
  on a response whose body has been read, rejects with a \<^verbatim>\<open>TypeError\<close>.
\<close>

definition read_text :: "response \<Rightarrow> hstate \<Rightarrow> (js_error + string) \<times> hstate" where
  "read_text r s =
     (if bodyUsed s then (Inl BodyUnusable, s)
      else (case body_text r of
              Inl m \<Rightarrow> (Inl (Rejected m), s\<lparr>bodyUsed := True\<rparr>)
            | Inr t \<Rightarrow> (Inr t, s\<lparr>bodyUsed := True\<rparr>)))"

definition read_json :: "response \<Rightarrow> hstate \<Rightarrow> (js_error + jsval) \<times> hstate" where
  "read_json r s =
     (if bodyUsed s then (Inl BodyUnusable, s)
      else (case body_json r of
              Inl m \<Rightarrow> (Inl (Rejected m), s\<lparr>bodyUsed := True\<rparr>)
            | Inr v \<Rightarrow> (Inr v, s\<lparr>bodyUsed := True\<rparr>)))"

subsection \<open>Creating the job (lines 108 to 150)\<close>

definition create_payload :: "jsval \<Rightarrow> payload" where
  "create_payload text =
     \<lparr>source_url = ''https://d-id-public-bucket.s3.us-west-2.amazonaws.com/alice.jpg'',
      script_type = ''text'',
      provider_type = ''microsoft'',
      voice_id = ''en-US-JennyNeural'',
      script_input = text\<rparr>"

text \<open>
  The \<^verbatim>\<open>if (!createResponse.ok)\<close> statement (lines 143 to 146): it reads the body as
  text, replies, and does not return.
\<close>

definition check_ok :: "response \<Rightarrow> hstate \<Rightarrow> (js_error + unit) \<times> hstate" where
  "check_ok r s =
     (if \<not> ok r then
        (case read_text r s of
           (Inl e, s1) \<Rightarrow> (Inl e, s1)
         | (Inr t, s1) \<Rightarrow> respond 200 (ErrorDetail ''D-ID creation failed'' (DText t)) s1)
      else (Inr (), s))"

text \<open>The result is \<^verbatim>\<open>talkId\<close>, or what was thrown on the way.\<close>

definition create_talk :: "string \<Rightarrow> world \<Rightarrow> jsval \<Rightarrow> hstate \<Rightarrow> (js_error + jsval option) \<times> hstate" where
  "create_talk key w text s =
     (let s0 = emit [CreateTalk key (create_payload text)] s in
      case create_result w of
        NetworkError m \<Rightarrow> (Inl (Rejected m), s0)
      | Responds r \<Rightarrow>
          (case check_ok r s0 of
             (Inl e, s1) \<Rightarrow> (Inl e, s1)
           | (Inr u, s1) \<Rightarrow>
               (case read_json r s1 of
                  (Inl e, s2) \<Rightarrow> (Inl e, s2)
                | (Inr createData, s2) \<Rightarrow>
                    (case get_prop (Some createData) ''id'' of
                       Inl e \<Rightarrow> (Inl e, s2)
                     | Inr talkId \<Rightarrow> (Inr talkId, s2)))))"

subsection \<open>The polling loop (lines 153 to 167)\<close>

text \<open>
  \<^verbatim>\<open>!talkResult || (talkResult.status !== 'done' && talkResult.status !== 'error')\<close>.
  A falsy \<^verbatim>\<open>talkResult\<close> short-cuts the property reads, so nothing throws here.
\<close>

fun status_of :: "jsval \<Rightarrow> jsval option" where
  "status_of (JObj kvs) = map_of kvs ''status''"
| "status_of v = None"

fun keep_polling :: "jsval option \<Rightarrow> bool" where
  "keep_polling None = True"
| "keep_polling (Some v) =
     (if truthy v
      then status_of v \<noteq> Some (JStr ''done'') \<and> status_of v \<noteq> Some (JStr ''error'')
      else True)"

record poll_state =
  queries :: nat
    \<comment> \<open>status queries issued so far\<close>
  talkResult :: "jsval option"
  trace :: "event list"

datatype step =
    Again poll_state
  | Exited "jsval option" "event list"
      \<comment> \<open>the loop condition failed: \<^verbatim>\<open>talkResult\<close> and the events so far\<close>
  | Thrown js_error "event list"
      \<comment> \<open>an \<^verbatim>\<open>await\<close> in the body rejected\<close>

text \<open>One test of the loop condition and, when it holds, one run of the body.\<close>

definition poll_iter :: "string \<Rightarrow> (nat \<Rightarrow> fetch_result) \<Rightarrow> jsval option \<Rightarrow> poll_state \<Rightarrow> step" where
  "poll_iter key results talkId s =
     (if keep_polling (talkResult s) then
        (let tr = trace s @ [Wait 3000, StatusQuery key talkId] in
         case results (queries s) of
           NetworkError m \<Rightarrow> Thrown (Rejected m) tr
         | Responds r \<Rightarrow>
             (case body_json r of
                Inl m \<Rightarrow> Thrown (Rejected m) tr
              | Inr v \<Rightarrow> Again \<lparr>queries = Suc (queries s), talkResult = Some v, trace = tr\<rparr>))
      else Exited (talkResult s) (trace s))"

text \<open>The loop itself. \<open>None\<close>: it never leaves.\<close>

partial_function (option) poll_loop ::
  "string \<Rightarrow> (nat \<Rightarrow> fetch_result) \<Rightarrow> jsval option \<Rightarrow> poll_state \<Rightarrow> ((js_error + jsval option) \<times> event list) option"
where
  "poll_loop key results talkId s =
     (case poll_iter key results talkId s of
        Again s' \<Rightarrow> poll_loop key results talkId s'
      | Exited v tr \<Rightarrow> Some (Inr v, tr)
      | Thrown e tr \<Rightarrow> Some (Inl e, tr))"

declare poll_loop.simps [code]

text \<open>The first \<open>n\<close> rounds of the loop, for looking at a run that may not end.\<close>

fun poll_upto :: "nat \<Rightarrow> string \<Rightarrow> (nat \<Rightarrow> fetch_result) \<Rightarrow> jsval option \<Rightarrow> poll_state \<Rightarrow> step" where
  "poll_upto 0 key results talkId s = Again s"
| "poll_upto (Suc n) key results talkId s =
     (case poll_iter key results talkId s of
        Again s' \<Rightarrow> poll_upto n key results talkId s'
      | Exited v tr \<Rightarrow> Exited v tr
      | Thrown e tr \<Rightarrow> Thrown e tr)"

fun step_trace :: "step \<Rightarrow> event list" where
  "step_trace (Again s) = trace s"
| "step_trace (Exited v tr) = tr"
| "step_trace (Thrown e tr) = tr"

definition poll_start :: "event list \<Rightarrow> poll_state" where
  "poll_start tr = \<lparr>queries = 0, talkResult = None, trace = tr\<rparr>"

subsection \<open>After the loop (lines 169 to 177) and the catch block (lines 181 to 184)\<close>

definition finish :: "jsval option \<Rightarrow> hstate \<Rightarrow> (js_error + unit) \<times> hstate" where
  "finish tres s =
     (case get_prop tres ''status'' of
        Inl e \<Rightarrow> (Inl e, s)
      | Inr st \<Rightarrow>
          (if st = Some (JStr ''done'') then
             (case get_prop tres ''result_url'' of
                Inl e \<Rightarrow> (Inl e, s)
              | Inr url \<Rightarrow>
                  (case respond 200 (VideoUrl (nullish url tres)) s of
                     (Inl e, s1) \<Rightarrow> (Inl e, s1)
                   | (Inr u, s1) \<Rightarrow>
                       respond 500 (ErrorDetail ''D-ID processing failed'' (DValue tres)) s1))
           else respond 500 (ErrorDetail ''D-ID processing failed'' (DValue tres)) s))"

datatype outcome =
    Returned
  | Escaped js_error
      \<comment> \<open>the promise of the handler rejects\<close>

definition ending :: "(js_error + unit) \<times> hstate \<Rightarrow> outcome \<times> event list" where
  "ending r = (case r of (Inl e, s) \<Rightarrow> (Escaped e, events s) | (Inr u, s) \<Rightarrow> (Returned, events s))"

definition catch_block :: "js_error \<Rightarrow> hstate \<Rightarrow> outcome \<times> event list" where
  "catch_block err s = ending (respond 502 (ErrorDetail ''D-ID error'' (DMessage err)) s)"

subsection \<open>The handler\<close>

text \<open>The \<^verbatim>\<open>try\<close> block and its \<^verbatim>\<open>catch\<close>.\<close>

definition try_catch :: "string \<Rightarrow> world \<Rightarrow> jsval \<Rightarrow> (outcome \<times> event list) option" where
  "try_catch key w text =
     (case create_talk key w text start of
        (Inl e, s) \<Rightarrow> Some (catch_block e s)
      | (Inr talkId, s) \<Rightarrow>
          (case poll_loop key (status_results w) talkId (poll_start (events s)) of
             None \<Rightarrow> None
           | Some (Inl e, tr) \<Rightarrow> Some (catch_block e (s\<lparr>events := tr\<rparr>))
           | Some (Inr tres, tr) \<Rightarrow>
               (case finish tres (s\<lparr>events := tr\<rparr>) of
                  (Inl e, s1) \<Rightarrow> Some (catch_block e s1)
                | (Inr u, s1) \<Rightarrow> Some (Returned, events s1))))"

text \<open>
  The handler, on \<^verbatim>\<open>req.body\<close>. \<open>None\<close>: the handler never settles. The default of
  \<^verbatim>\<open>sourceUrl\<close> is a non-empty string.
\<close>

definition source_url_default :: string where
  "source_url_default = ''https://randomuser.me/api/portraits/women/65.jpg''"

definition did_talk :: "env \<Rightarrow> world \<Rightarrow> jsval option \<Rightarrow> (outcome \<times> event list) option" where
  "did_talk e w body =
     (case get_prop body ''text'' of
        Inl err \<Rightarrow> Some (Escaped err, [])
      | Inr text \<Rightarrow>
          (if \<not> truthy_opt text then
             Some (ending (respond 400 (ErrorOnly ''text required'') start))
           else
             (let key = DID_API_KEY e;
                  sourceUrl = (if env_truthy (DID_SOURCE_URL e) then DID_SOURCE_URL e
                               else Some source_url_default)
              in if \<not> env_truthy key \<or> \<not> env_truthy sourceUrl then
                   Some (ending (respond 500 (ErrorOnly ''D-ID key or source image not configured'') start))
                 else try_catch (the key) w (the text))))"

subsection \<open>Notions for stating the properties\<close>

text \<open>
  How a round of the loop takes the outcome of one status query. \<open>pending\<close>: the
  query is answered, the body parses and its \<^verbatim>\<open>status\<close> is neither \<^verbatim>\<open>'done'\<close> nor
  \<^verbatim>\<open>'error'\<close> (a body without a \<^verbatim>\<open>status\<close>, and a body that is not an object, are
  pending too). \<open>failure\<close>: \<^verbatim>\<open>fetch\<close> or \<^verbatim>\<open>json()\<close> rejects, with that error.
\<close>

fun pending :: "fetch_result \<Rightarrow> bool" where
  "pending (NetworkError m) = False"
| "pending (Responds r) =
     (case body_json r of
        Inl m \<Rightarrow> False
      | Inr v \<Rightarrow> status_of v \<noteq> Some (JStr ''done'') \<and> status_of v \<noteq> Some (JStr ''error''))"

fun failure :: "fetch_result \<Rightarrow> js_error option" where
  "failure (NetworkError m) = Some (Rejected m)"
| "failure (Responds r) = (case body_json r of Inl m \<Rightarrow> Some (Rejected m) | Inr v \<Rightarrow> None)"

text \<open>The events of \<open>n\<close> rounds: each round is one wait of 3000 ms, then one status query.\<close>

definition polls :: "nat \<Rightarrow> string \<Rightarrow> jsval option \<Rightarrow> event list" where
  "polls n key talkId = concat (replicate n [Wait 3000, StatusQuery key talkId])"

fun is_status_query :: "event \<Rightarrow> bool" where
  "is_status_query (StatusQuery k i) = True"
| "is_status_query ev = False"

definition status_queries :: "event list \<Rightarrow> nat" where
  "status_queries tr = length (filter is_status_query tr)"

text \<open>
  The request passes both guards of the handler: \<^verbatim>\<open>text\<close> is truthy and the key is
  configured.
\<close>

definition valid_request :: "env \<Rightarrow> jsval option \<Rightarrow> string \<Rightarrow> jsval \<Rightarrow> bool" where
  "valid_request e body key text =
     (get_prop body ''text'' = Inr (Some text) \<and> truthy text \<and> DID_API_KEY e = Some key \<and> key \<noteq> [])"


text \<open>The result of the loop, read off a finished prefix.\<close>

fun loop_result :: "step \<Rightarrow> ((js_error + jsval option) \<times> event list) option" where
  "loop_result (Again s) = None"
| "loop_result (Exited v tr) = Some (Inr v, tr)"
| "loop_result (Thrown e tr) = Some (Inl e, tr)"

subsection \<open>Concrete runs\<close>

text \<open>
  A configuration, a request and provider responses to run the handler on: the
  request \<^verbatim>\<open>{"text":"Hello world"}\<close>, creation responses with and without an
  \<^verbatim>\<open>id\<close> and one that is refused, and status responses of a job that has started,
  is done (with and without \<^verbatim>\<open>result_url\<close>) or has failed.
\<close>

definition env0 :: env where
  "env0 = \<lparr>DID_API_KEY = Some ''secret'', DID_SOURCE_URL = None\<rparr>"

definition req0 :: "jsval option" where
  "req0 = Some (JObj [(''text'', JStr ''Hello world'')])"

definition created :: response where
  \<open>created = \<lparr>ok = True, body_text = Inr ''{"id":"abc123"}'',
      body_json = Inr (JObj [(''id'', JStr ''abc123'')])\<rparr>\<close>

definition created_no_id :: response where
  "created_no_id = \<lparr>ok = True, body_text = Inr ''{}'', body_json = Inr (JObj [])\<rparr>"

definition rejected :: response where
  "rejected = \<lparr>ok = False, body_text = Inr ''Unauthorized'',
      body_json = Inl ''Unexpected token U in JSON at position 0''\<rparr>"

definition started :: response where
  \<open>started = \<lparr>ok = True, body_text = Inr ''{"status":"started"}'',
      body_json = Inr (JObj [(''status'', JStr ''started'')])\<rparr>\<close>

definition done_with_url :: response where
  \<open>done_with_url = \<lparr>ok = True,
      body_text = Inr ''{"status":"done","result_url":"https://cdn/video.mp4"}'',
      body_json = Inr (JObj [(''status'', JStr ''done''), (''result_url'', JStr ''https://cdn/video.mp4'')])\<rparr>\<close>

definition done_no_url :: response where
  \<open>done_no_url = \<lparr>ok = True, body_text = Inr ''{"status":"done"}'',
      body_json = Inr (JObj [(''status'', JStr ''done'')])\<rparr>\<close>

definition failed :: response where
  \<open>failed = \<lparr>ok = True, body_text = Inr ''{"status":"error","detail":"synthesis failed"}'',
      body_json = Inr (JObj [(''status'', JStr ''error''), (''detail'', JStr ''synthesis failed'')])\<rparr>\<close>

text \<open>A provider that answers every status query alike.\<close>

definition always :: "fetch_result \<Rightarrow> nat \<Rightarrow> fetch_result" where
  "always fr k = fr"

text \<open>A provider whose job is pending at the first two status queries.\<close>

definition two_pending_then :: "fetch_result \<Rightarrow> nat \<Rightarrow> fetch_result" where
  "two_pending_then fr k = (if k < 2 then Responds started else fr)"

abbreviation hello :: jsval where
  "hello \<equiv> JStr ''Hello world''"

abbreviation abc :: jsval where
  "abc \<equiv> JObj [(''id'', JStr ''abc123'')]"

section \<open>The loop and its prefixes\<close>

text \<open>
  The loop returns exactly what some finite prefix of it reaches, so it never returns
  when every prefix is still running.
\<close>

lemma poll_upto_loop:
  "loop_result (poll_upto n key rs tid s) = Some r \<Longrightarrow> poll_loop key rs tid s = Some r"
  by (induction n arbitrary: s; subst poll_loop.simps; simp split: step.splits)

lemma poll_loop_upto:
  assumes "poll_loop key rs tid s = Some r"
  shows "\<exists>n. loop_result (poll_upto n key rs tid s) = Some r"
  using assms
proof (induction rule: poll_loop.raw_induct [rotated 1, consumes 1])
  case (1 f key rs tid s r)
  show ?case
  proof (cases "poll_iter key rs tid s")
    case (Again s')
    from 1(2) Again have "f key rs tid s' = Some r"
      by simp
    then have "\<exists>n. loop_result (poll_upto n key rs tid s') = Some r"
      by (cases r) (simp add: 1(1))
    then obtain n where "loop_result (poll_upto n key rs tid s') = Some r" ..
    with Again have "loop_result (poll_upto (Suc n) key rs tid s) = Some r"
      by simp
    then show ?thesis ..
  next
    case (Exited v tr)
    with 1 have "loop_result (poll_upto (Suc 0) key rs tid s) = Some r" by simp
    then show ?thesis ..
  next
    case (Thrown e tr)
    with 1 have "loop_result (poll_upto (Suc 0) key rs tid s) = Some r" by simp
    then show ?thesis ..
  qed
qed

lemma poll_loop_None:
  "(\<And>n. loop_result (poll_upto n key rs tid s) = None) \<Longrightarrow> poll_loop key rs tid s = None"
  using poll_loop_upto [of key rs tid s] by (cases "poll_loop key rs tid s") auto

lemma poll_upto_add:
  "poll_upto (m + n) key rs tid s =
     (case poll_upto m key rs tid s of
        Again s' \<Rightarrow> poll_upto n key rs tid s'
      | Exited v tr \<Rightarrow> Exited v tr
      | Thrown e tr \<Rightarrow> Thrown e tr)"
  by (induction m arbitrary: s) (auto split: step.splits)

lemma keep_polling_status:
  "keep_polling (Some v) = (status_of v \<noteq> Some (JStr ''done'') \<and> status_of v \<noteq> Some (JStr ''error''))"
  by (cases v) simp_all

lemma keep_polling_terminal:
  "status_of v = Some (JStr ''done'') \<or> status_of v = Some (JStr ''error'') \<Longrightarrow> \<not> keep_polling (Some v)"
  by (cases v) auto

lemma polls_Suc: "polls (Suc n) key tid = [Wait 3000, StatusQuery key tid] @ polls n key tid"
  by (simp add: polls_def)

lemma polls_snoc: "polls (Suc n) key tid = polls n key tid @ [Wait 3000, StatusQuery key tid]"
  by (induction n) (simp_all add: polls_def)

lemma status_queries_polls: "status_queries (polls n key tid) = n"
  by (induction n) (simp_all add: polls_def status_queries_def)

lemma status_queries_append: "status_queries (xs @ ys) = status_queries xs + status_queries ys"
  by (simp add: status_queries_def)

subsection \<open>Rounds that see a pending status\<close>

lemma poll_iter_pending:
  assumes "pending (rs (queries s))" and "keep_polling (talkResult s)"
  shows "\<exists>s'. poll_iter key rs tid s = Again s' \<and> queries s' = Suc (queries s)
           \<and> trace s' = trace s @ [Wait 3000, StatusQuery key tid] \<and> keep_polling (talkResult s')"
proof (cases "rs (queries s)")
  case (NetworkError m)
  with assms show ?thesis by simp
next
  case (Responds r)
  with assms obtain v where "body_json r = Inr v" and "keep_polling (Some v)"
    by (auto simp: keep_polling_status split: sum.splits)
  with Responds assms(2) show ?thesis
    by (simp add: poll_iter_def)
qed

lemma poll_upto_pending:
  assumes "\<forall>k<n. pending (rs (queries s + k))" and "keep_polling (talkResult s)"
  shows "\<exists>s'. poll_upto n key rs tid s = Again s' \<and> queries s' = queries s + n
           \<and> trace s' = trace s @ polls n key tid \<and> keep_polling (talkResult s')"
  using assms
proof (induction n arbitrary: s)
  case 0
  then show ?case by (simp add: polls_def)
next
  case (Suc n)
  from Suc.prems have "pending (rs (queries s))" by auto
  with Suc.prems(2) obtain s1 where s1: "poll_iter key rs tid s = Again s1"
      "queries s1 = Suc (queries s)" "trace s1 = trace s @ [Wait 3000, StatusQuery key tid]"
      "keep_polling (talkResult s1)"
    using poll_iter_pending by blast
  from Suc.prems(1) s1(2) have "\<forall>k<n. pending (rs (queries s1 + k))"
    by auto
  from Suc.IH [OF this s1(4)] obtain s' where "poll_upto n key rs tid s1 = Again s'"
      "queries s' = queries s1 + n" "trace s' = trace s1 @ polls n key tid"
      "keep_polling (talkResult s')"
    by blast
  with s1 show ?case
    by (simp add: polls_Suc)
qed

lemma poll_loop_forever:
  assumes "\<forall>k. pending (rs k)" and "keep_polling (talkResult s)"
  shows "poll_loop key rs tid s = None"
proof (rule poll_loop_None)
  fix n
  from assms have "\<exists>s'. poll_upto n key rs tid s = Again s'"
    using poll_upto_pending [of n rs s key tid] by blast
  then show "loop_result (poll_upto n key rs tid s) = None"
    by auto
qed

subsection \<open>The round that ends the loop\<close>

lemma poll_loop_terminal:
  assumes "\<forall>k<n. pending (rs k)"
    and "rs n = Responds r" and "body_json r = Inr v"
    and "status_of v = Some (JStr ''done'') \<or> status_of v = Some (JStr ''error'')"
  shows "poll_loop key rs tid (poll_start tr) = Some (Inr (Some v), tr @ polls (Suc n) key tid)"
proof -
  from assms(1) obtain s' where s': "poll_upto n key rs tid (poll_start tr) = Again s'"
      "queries s' = n" "trace s' = tr @ polls n key tid" "keep_polling (talkResult s')"
    using poll_upto_pending [of n rs "poll_start tr" key tid] by (auto simp: poll_start_def)
  define s2 where "s2 = \<lparr>queries = Suc n, talkResult = Some v, trace = tr @ polls (Suc n) key tid\<rparr>"
  from s' assms(2,3) have "poll_iter key rs tid s' = Again s2"
    by (simp add: poll_iter_def s2_def polls_snoc)
  moreover from keep_polling_terminal [OF assms(4)]
  have "poll_iter key rs tid s2 = Exited (Some v) (tr @ polls (Suc n) key tid)"
    by (simp add: poll_iter_def s2_def del: keep_polling.simps)
  ultimately have "poll_upto (Suc (Suc 0)) key rs tid s' = Exited (Some v) (tr @ polls (Suc n) key tid)"
    by simp
  with s'(1) have "poll_upto (n + Suc (Suc 0)) key rs tid (poll_start tr)
      = Exited (Some v) (tr @ polls (Suc n) key tid)"
    by (simp only: poll_upto_add step.case)
  then show ?thesis
    by (intro poll_upto_loop [of "n + Suc (Suc 0)"]) simp
qed

lemma poll_loop_failure:
  assumes "\<forall>k<n. pending (rs k)" and "failure (rs n) = Some err"
  shows "poll_loop key rs tid (poll_start tr) = Some (Inl err, tr @ polls (Suc n) key tid)"
proof -
  from assms(1) obtain s' where s': "poll_upto n key rs tid (poll_start tr) = Again s'"
      "queries s' = n" "trace s' = tr @ polls n key tid" "keep_polling (talkResult s')"
    using poll_upto_pending [of n rs "poll_start tr" key tid] by (auto simp: poll_start_def)
  from s' assms(2) have "poll_iter key rs tid s' = Thrown err (tr @ polls (Suc n) key tid)"
    by (cases "rs n") (auto simp: poll_iter_def polls_snoc split: sum.splits)
  then have "poll_upto (Suc 0) key rs tid s' = Thrown err (tr @ polls (Suc n) key tid)"
    by simp
  with s'(1) have "poll_upto (n + Suc 0) key rs tid (poll_start tr)
      = Thrown err (tr @ polls (Suc n) key tid)"
    by (simp only: poll_upto_add step.case)
  then show ?thesis
    by (intro poll_upto_loop [of "n + Suc 0"]) simp
qed

section \<open>Runs of the handler\<close>

lemma did_talk_valid:
  "valid_request e body key t \<Longrightarrow> did_talk e w body = try_catch key w t"
  by (simp add: did_talk_def valid_request_def source_url_default_def)

lemma create_talk_ok:
  assumes "create_result w = Responds r" and "ok r" and "body_json r = Inr d"
    and "get_prop (Some d) ''id'' = Inr tid"
  shows "create_talk key w t start
    = (Inr tid, \<lparr>events = [CreateTalk key (create_payload t)], headersSent = False, bodyUsed = True\<rparr>)"
  using assms by (simp add: create_talk_def check_ok_def read_json_def emit_def start_def)

lemma create_talk_rejected:
  assumes "create_result w = Responds r" and "\<not> ok r" and "body_text r = Inr raw"
  shows "create_talk key w t start
    = (Inl BodyUnusable,
       \<lparr>events = [CreateTalk key (create_payload t),
                  Respond 200 (ErrorDetail ''D-ID creation failed'' (DText raw))],
        headersSent = True, bodyUsed = True\<rparr>)"
  using assms
  by (simp add: create_talk_def check_ok_def read_text_def read_json_def respond_def emit_def start_def)

lemma run_done:
  assumes "valid_request e body key t"
    and "create_result w = Responds r" and "ok r" and "body_json r = Inr d"
    and "get_prop (Some d) ''id'' = Inr tid"
    and "\<forall>k<n. pending (status_results w k)"
    and "status_results w n = Responds r'" and "body_json r' = Inr (JObj kvs)"
    and "map_of kvs ''status'' = Some (JStr ''done'')"
  shows "did_talk e w body = Some (Escaped HeadersSent,
           CreateTalk key (create_payload t) # polls (Suc n) key tid @
           [Respond 200 (VideoUrl (nullish (map_of kvs ''result_url'') (Some (JObj kvs)))),
            RespondRefused 500 (ErrorDetail ''D-ID processing failed'' (DValue (Some (JObj kvs)))),
            RespondRefused 502 (ErrorDetail ''D-ID error'' (DMessage HeadersSent))])"
proof -
  from assms(9) have "status_of (JObj kvs) = Some (JStr ''done'') \<or> status_of (JObj kvs) = Some (JStr ''error'')"
    by simp
  from poll_loop_terminal [OF assms(6,7,8) this]
  have "poll_loop key (status_results w) tid (poll_start [CreateTalk key (create_payload t)])
      = Some (Inr (Some (JObj kvs)), [CreateTalk key (create_payload t)] @ polls (Suc n) key tid)" .
  with assms(1,9) create_talk_ok [OF assms(2-5)] show ?thesis
    by (simp add: did_talk_valid try_catch_def finish_def catch_block_def respond_def emit_def ending_def)
qed

lemma run_error:
  assumes "valid_request e body key t"
    and "create_result w = Responds r" and "ok r" and "body_json r = Inr d"
    and "get_prop (Some d) ''id'' = Inr tid"
    and "\<forall>k<n. pending (status_results w k)"
    and "status_results w n = Responds r'" and "body_json r' = Inr (JObj kvs)"
    and "map_of kvs ''status'' = Some (JStr ''error'')"
  shows "did_talk e w body = Some (Returned,
           CreateTalk key (create_payload t) # polls (Suc n) key tid @
           [Respond 500 (ErrorDetail ''D-ID processing failed'' (DValue (Some (JObj kvs))))])"
proof -
  from assms(9) have "status_of (JObj kvs) = Some (JStr ''done'') \<or> status_of (JObj kvs) = Some (JStr ''error'')"
    by simp
  from poll_loop_terminal [OF assms(6,7,8) this]
  have "poll_loop key (status_results w) tid (poll_start [CreateTalk key (create_payload t)])
      = Some (Inr (Some (JObj kvs)), [CreateTalk key (create_payload t)] @ polls (Suc n) key tid)" .
  with assms(1,9) create_talk_ok [OF assms(2-5)] show ?thesis
    by (simp add: did_talk_valid try_catch_def finish_def catch_block_def respond_def emit_def ending_def)
qed

lemma run_failure:
  assumes "valid_request e body key t"
    and "create_result w = Responds r" and "ok r" and "body_json r = Inr d"
    and "get_prop (Some d) ''id'' = Inr tid"
    and "\<forall>k<n. pending (status_results w k)"
    and "failure (status_results w n) = Some err"
  shows "did_talk e w body = Some (Returned,
           CreateTalk key (create_payload t) # polls (Suc n) key tid @
           [Respond 502 (ErrorDetail ''D-ID error'' (DMessage err))])"
proof -
  from poll_loop_failure [OF assms(6,7)]
  have "poll_loop key (status_results w) tid (poll_start [CreateTalk key (create_payload t)])
      = Some (Inl err, [CreateTalk key (create_payload t)] @ polls (Suc n) key tid)" .
  with assms(1) create_talk_ok [OF assms(2-5)] show ?thesis
    by (simp add: did_talk_valid try_catch_def catch_block_def respond_def emit_def ending_def)
qed

lemma run_forever:
  assumes "valid_request e body key t"
    and "create_result w = Responds r" and "ok r" and "body_json r = Inr d"
    and "get_prop (Some d) ''id'' = Inr tid"
    and "\<forall>k. pending (status_results w k)"
  shows "did_talk e w body = None"
proof -
  have "poll_loop key (status_results w) tid (poll_start [CreateTalk key (create_payload t)]) = None"
    using assms(6) by (intro poll_loop_forever) (simp_all add: poll_start_def)
  with assms(1) create_talk_ok [OF assms(2-5)] show ?thesis
    by (simp add: did_talk_valid try_catch_def)
qed

lemma did_talk_guards:
  "did_talk e w body =
     (case get_prop body ''text'' of
        Inl err \<Rightarrow> Some (Escaped err, [])
      | Inr text \<Rightarrow>
          if \<not> truthy_opt text then
            Some (ending (respond 400 (ErrorOnly ''text required'') start))
          else if \<not> env_truthy (DID_API_KEY e) then
            Some (ending (respond 500 (ErrorOnly ''D-ID key or source image not configured'') start))
          else try_catch (the (DID_API_KEY e)) w (the text))"
  by (cases "env_truthy (DID_SOURCE_URL e)")
    (simp_all add: did_talk_def source_url_default_def Let_def split: sum.splits)

section \<open>The shape of a trace\<close>

lemma poll_iter_trace:
  "step_trace (poll_iter key rs tid s)
     = trace s @ (if keep_polling (talkResult s) then [Wait 3000, StatusQuery key tid] else [])"
  by (simp add: poll_iter_def Let_def split: fetch_result.splits sum.splits)

lemma poll_upto_one_trace:
  "step_trace (poll_upto (Suc 0) key rs tid s) = step_trace (poll_iter key rs tid s)"
  by (cases "poll_iter key rs tid s") simp_all

lemma poll_upto_trace:
  "\<exists>m\<le>n. step_trace (poll_upto n key rs tid s) = trace s @ polls m key tid"
proof (induction n arbitrary: s)
  case 0
  have "step_trace (poll_upto 0 key rs tid s) = trace s @ polls 0 key tid"
    by (simp add: polls_def)
  then show ?case by blast
next
  case (Suc n)
  show ?case
  proof (cases "poll_iter key rs tid s")
    case (Again s1)
    with poll_iter_trace [of key rs tid s]
    have "trace s1 = trace s @ polls 0 key tid \<or> trace s1 = trace s @ polls (Suc 0) key tid"
      by (simp add: polls_def split: if_splits)
    moreover from Suc.IH [of s1] obtain m where "m \<le> n"
        and "step_trace (poll_upto n key rs tid s1) = trace s1 @ polls m key tid"
      by blast
    ultimately have "step_trace (poll_upto (Suc n) key rs tid s) = trace s @ polls m key tid
        \<or> step_trace (poll_upto (Suc n) key rs tid s) = trace s @ polls (Suc m) key tid"
      using Again by (auto simp: polls_def)
    with \<open>m \<le> n\<close> show ?thesis
      by (metis Suc_le_mono le_Suc_eq)
  next
    case (Exited v tr)
    with poll_iter_trace [of key rs tid s]
    have "step_trace (poll_upto (Suc n) key rs tid s) = trace s @ polls 0 key tid
        \<or> step_trace (poll_upto (Suc n) key rs tid s) = trace s @ polls (Suc 0) key tid"
      by (simp add: polls_def split: if_splits)
    then show ?thesis
      by (metis le0 Suc_le_mono)
  next
    case (Thrown e tr)
    with poll_iter_trace [of key rs tid s]
    have "step_trace (poll_upto (Suc n) key rs tid s) = trace s @ polls 0 key tid
        \<or> step_trace (poll_upto (Suc n) key rs tid s) = trace s @ polls (Suc 0) key tid"
      by (simp add: polls_def split: if_splits)
    then show ?thesis
      by (metis le0 Suc_le_mono)
  qed
qed

lemma loop_result_trace: "loop_result st = Some (x, tr) \<Longrightarrow> step_trace st = tr"
  by (cases st) auto

lemma poll_loop_trace:
  assumes "poll_loop key rs tid s = Some (x, tr)"
  shows "\<exists>m. tr = trace s @ polls m key tid"
proof -
  from poll_loop_upto [OF assms] obtain n
    where "loop_result (poll_upto n key rs tid s) = Some (x, tr)" ..
  then have "step_trace (poll_upto n key rs tid s) = tr"
    by (rule loop_result_trace)
  with poll_upto_trace [of n key rs tid s] show ?thesis
    by auto
qed

text \<open>\<^verbatim>\<open>talkResult\<close> starts undefined, so the first round always runs the body.\<close>

lemma poll_loop_first_round:
  assumes "poll_loop key rs tid (poll_start tr0) = Some (x, tr)"
  shows "\<exists>m. tr = tr0 @ polls (Suc m) key tid"
proof (cases "poll_iter key rs tid (poll_start tr0)")
  case (Again s1)
  with poll_iter_trace [of key rs tid "poll_start tr0"]
  have "trace s1 = tr0 @ [Wait 3000, StatusQuery key tid]"
    by (simp add: poll_start_def)
  moreover from assms Again have "poll_loop key rs tid s1 = Some (x, tr)"
    by (subst (asm) poll_loop.simps) simp
  then obtain m where "tr = trace s1 @ polls m key tid"
    using poll_loop_trace by blast
  ultimately have "tr = tr0 @ polls (Suc m) key tid"
    by (simp add: polls_Suc)
  then show ?thesis ..
next
  case (Exited v tr')
  then show ?thesis
    by (simp add: poll_iter_def poll_start_def Let_def split: fetch_result.splits sum.splits)
next
  case (Thrown e tr')
  with poll_iter_trace [of key rs tid "poll_start tr0"]
  have "tr' = tr0 @ polls (Suc 0) key tid"
    by (simp add: poll_start_def polls_def)
  moreover from assms Thrown have "tr = tr'"
    by (subst (asm) poll_loop.simps) simp
  ultimately show ?thesis by blast
qed

lemma catch_block_trace: "\<exists>xs. snd (catch_block err s) = events s @ xs"
  by (simp add: catch_block_def respond_def emit_def ending_def)

lemma finish_trace: "\<exists>xs. events (snd (finish v s)) = events s @ xs"
  by (auto simp: finish_def respond_def emit_def split: sum.splits)

lemma try_catch_first_query:
  assumes "create_talk key w t start = (Inr tid, s0)" and "events s0 = [c]"
  shows "try_catch key w t = None
       \<or> (\<exists>out tr. try_catch key w t = Some (out, c # Wait 3000 # StatusQuery key tid # tr))"
proof (cases "poll_loop key (status_results w) tid (poll_start [c])")
  case None
  with assms show ?thesis by (simp add: try_catch_def)
next
  case (Some res)
  obtain x tr' where res: "res = (x, tr')" by (cases res)
  with Some obtain m where tr': "tr' = [c] @ polls (Suc m) key tid"
    using poll_loop_first_round by blast
  show ?thesis
  proof (cases x)
    case (Inl err)
    obtain out tr where cb: "catch_block err (s0\<lparr>events := tr'\<rparr>) = (out, tr)"
      by (cases "catch_block err (s0\<lparr>events := tr'\<rparr>)")
    then obtain xs where "tr = tr' @ xs"
      using catch_block_trace [of err "s0\<lparr>events := tr'\<rparr>"] by auto
    with tr' have "tr = c # Wait 3000 # StatusQuery key tid # (polls m key tid @ xs)"
      by (simp add: polls_Suc)
    moreover from assms Some res Inl cb have "try_catch key w t = Some (out, tr)"
      by (simp add: try_catch_def)
    ultimately show ?thesis by blast
  next
    case (Inr v)
    obtain r1 s1 where fin: "finish v (s0\<lparr>events := tr'\<rparr>) = (r1, s1)"
      by (cases "finish v (s0\<lparr>events := tr'\<rparr>)")
    then obtain xs where "events s1 = tr' @ xs"
      using finish_trace [of v "s0\<lparr>events := tr'\<rparr>"] by auto
    with tr' have s1: "events s1 = c # Wait 3000 # StatusQuery key tid # (polls m key tid @ xs)"
      by (simp add: polls_Suc)
    show ?thesis
    proof (cases r1)
      case (Inl err)
      obtain out tr where cb: "catch_block err s1 = (out, tr)"
        by (cases "catch_block err s1")
      then obtain ys where "tr = events s1 @ ys"
        using catch_block_trace [of err s1] by auto
      with s1 have "tr = c # Wait 3000 # StatusQuery key tid # (polls m key tid @ xs @ ys)"
        by simp
      moreover from assms Some res \<open>x = Inr v\<close> fin Inl cb have "try_catch key w t = Some (out, tr)"
        by (simp add: try_catch_def)
      ultimately show ?thesis by blast
    next
      case (Inr u)
      with assms Some res \<open>x = Inr v\<close> fin have "try_catch key w t = Some (Returned, events s1)"
        by (simp add: try_catch_def)
      with s1 show ?thesis by simp
    qed
  qed
qed

lemma status_queries_Cons:
  "status_queries (ev # tr) = (if is_status_query ev then Suc (status_queries tr) else status_queries tr)"
  by (simp add: status_queries_def)

lemma status_queries_Nil: "status_queries [] = 0"
  by (simp add: status_queries_def)

lemmas fx = env0_def req0_def created_def created_no_id_def rejected_def started_def
  done_with_url_def done_no_url_def failed_def two_pending_then_def always_def valid_request_def

section \<open>The claims\<close>

text \<open>
  In the statements below a request is \<open>valid_request e body key t\<close> when it passes the
  two guards of the handler, the outcome of the \<open>k\<close>-th status query is
  \<open>status_results w k\<close>, and \<open>polls n key tid\<close> is the trace of \<open>n\<close> rounds of the loop.
\<close>

subsection \<open>C1: a rejected creation\<close>

text \<open>
  Claim C1. When the job-creation call is answered with a response that is not
  \<^verbatim>\<open>ok\<close> (and whose body can be read), the reply that goes out is
  \<^verbatim>\<open>{error: "D-ID creation failed", detail: <the raw body>}\<close>, the job is not created
  again, and no status query and no wait follow. The handler does not return
  after replying: it goes on to \<^verbatim>\<open>createResponse.json()\<close>, which rejects because the
  body has been read by \<^verbatim>\<open>text()\<close>; control passes to the catch block before the loop
  is reached, and the reply statement of the catch block is refused.
\<close>

theorem creation_rejected_no_polling:
  assumes "valid_request e body key t"
    and "create_result w = Responds r" and "\<not> ok r" and "body_text r = Inr raw"
  shows "did_talk e w body = Some (Escaped HeadersSent,
           [CreateTalk key (create_payload t),
            Respond 200 (ErrorDetail ''D-ID creation failed'' (DText raw)),
            RespondRefused 502 (ErrorDetail ''D-ID error'' (DMessage BodyUnusable))])"
  using assms(1) create_talk_rejected [OF assms(2-4)]
  by (simp add: did_talk_valid try_catch_def catch_block_def respond_def emit_def ending_def)

theorem creation_rejected_no_polling_witness:
  "valid_request env0 req0 ''secret'' hello
   \<and> \<not> ok rejected \<and> body_text rejected = Inr ''Unauthorized''
   \<and> did_talk env0 \<lparr>create_result = Responds rejected, status_results = always (Responds done_with_url)\<rparr> req0
     = Some (Escaped HeadersSent,
         [CreateTalk ''secret'' (create_payload hello),
          Respond 200 (ErrorDetail ''D-ID creation failed'' (DText ''Unauthorized'')),
          RespondRefused 502 (ErrorDetail ''D-ID error'' (DMessage BodyUnusable))])"
proof -
  let ?w = "\<lparr>create_result = Responds rejected, status_results = always (Responds done_with_url)\<rparr>"
  have h: "valid_request env0 req0 ''secret'' hello" "create_result ?w = Responds rejected"
      "\<not> ok rejected" "body_text rejected = Inr ''Unauthorized''"
    by (simp_all add: fx)
  from h creation_rejected_no_polling [OF h] show ?thesis
    by simp
qed

subsection \<open>C2: a creation response without an id\<close>

text \<open>
  Claim C2, as the code has it. When the job-creation response is \<^verbatim>\<open>ok\<close> and its body
  parses to a value other than \<^verbatim>\<open>null\<close> that has no \<^verbatim>\<open>id\<close>, the handler signals
  nothing: \<^verbatim>\<open>talkId\<close> is \<^verbatim>\<open>undefined\<close>, no reply has gone out when the loop is reached,
  and the first round of the loop waits 3000 ms and issues a status query for
  the talk id \<^verbatim>\<open>undefined\<close>. Whenever the handler settles, its trace starts with
  the creation call, that wait and that query.
\<close>

theorem missing_id_is_polled:
  assumes "valid_request e body key t"
    and "create_result w = Responds r" and "ok r" and "body_json r = Inr d"
    and "get_prop (Some d) ''id'' = Inr None"
  shows "create_talk key w t start
           = (Inr None, \<lparr>events = [CreateTalk key (create_payload t)], headersSent = False, bodyUsed = True\<rparr>)
       \<and> step_trace (poll_upto (Suc 0) key (status_results w) None (poll_start [CreateTalk key (create_payload t)]))
           = [CreateTalk key (create_payload t), Wait 3000, StatusQuery key None]
       \<and> (did_talk e w body = None
           \<or> (\<exists>out tr. did_talk e w body
                 = Some (out, CreateTalk key (create_payload t) # Wait 3000 # StatusQuery key None # tr)))"
proof -
  note job = create_talk_ok [OF assms(2-5), of key t]
  have "step_trace (poll_upto (Suc 0) key (status_results w) None (poll_start [CreateTalk key (create_payload t)]))
           = [CreateTalk key (create_payload t), Wait 3000, StatusQuery key None]"
    by (simp only: poll_upto_one_trace poll_iter_trace) (simp add: poll_start_def)
  moreover have "try_catch key w t = None
       \<or> (\<exists>out tr. try_catch key w t
             = Some (out, CreateTalk key (create_payload t) # Wait 3000 # StatusQuery key None # tr))"
    by (rule try_catch_first_query [OF job]) simp
  ultimately show ?thesis
    using job did_talk_valid [OF assms(1)] by simp
qed

theorem missing_id_is_polled_witness:
  "valid_request env0 req0 ''secret'' hello
   \<and> ok created_no_id \<and> body_json created_no_id = Inr (JObj [])
   \<and> get_prop (Some (JObj [])) ''id'' = Inr None
   \<and> create_talk ''secret'' \<lparr>create_result = Responds created_no_id, status_results = always (Responds started)\<rparr>
        hello start
       = (Inr None, \<lparr>events = [CreateTalk ''secret'' (create_payload hello)], headersSent = False, bodyUsed = True\<rparr>)
   \<and> step_trace (poll_upto (Suc 0) ''secret'' (always (Responds started)) None
         (poll_start [CreateTalk ''secret'' (create_payload hello)]))
       = [CreateTalk ''secret'' (create_payload hello), Wait 3000, StatusQuery ''secret'' None]"
proof -
  let ?w = "\<lparr>create_result = Responds created_no_id, status_results = always (Responds started)\<rparr>"
  have h: "valid_request env0 req0 ''secret'' hello" "create_result ?w = Responds created_no_id"
      "ok created_no_id" "body_json created_no_id = Inr (JObj [])"
      "get_prop (Some (JObj [])) ''id'' = Inr None"
    by (simp_all add: fx)
  from h missing_id_is_polled [OF h] show ?thesis
    by simp
qed

text \<open>
  The claim as written asks for an error and for no status query. With the body
  \<^verbatim>\<open>{}\<close> and a provider that answers the first status query with a job in status
  \<^verbatim>\<open>error\<close>, one status query is issued and the reply is that of a failed job.
\<close>

theorem missing_id_counterexample:
  "did_talk env0 \<lparr>create_result = Responds created_no_id, status_results = always (Responds failed)\<rparr> req0
     = Some (Returned,
         [CreateTalk ''secret'' (create_payload hello),
          Wait 3000, StatusQuery ''secret'' None,
          Respond 500 (ErrorDetail ''D-ID processing failed''
            (DValue (Some (JObj [(''status'', JStr ''error''), (''detail'', JStr ''synthesis failed'')]))))])
   \<and> status_queries
        [CreateTalk ''secret'' (create_payload hello),
          Wait 3000, StatusQuery ''secret'' None,
          Respond 500 (ErrorDetail ''D-ID processing failed''
            (DValue (Some (JObj [(''status'', JStr ''error''), (''detail'', JStr ''synthesis failed'')]))))]
     = 1"
proof -
  let ?w = "\<lparr>create_result = Responds created_no_id, status_results = always (Responds failed)\<rparr>"
  let ?kvs = "[(''status'', JStr ''error''), (''detail'', JStr ''synthesis failed'')]"
  have h: "valid_request env0 req0 ''secret'' hello" "create_result ?w = Responds created_no_id"
      "ok created_no_id" "body_json created_no_id = Inr (JObj [])"
      "get_prop (Some (JObj [])) ''id'' = Inr None"
      "\<forall>k<(0::nat). pending (status_results ?w k)" "status_results ?w 0 = Responds failed"
      "body_json failed = Inr (JObj ?kvs)" "map_of ?kvs ''status'' = Some (JStr ''error'')"
    by (simp_all add: fx)
  from run_error [OF h] show ?thesis
    by (simp add: polls_def status_queries_def)
qed

subsection \<open>C3: a job that stays pending\<close>

text \<open>
  Claim C3. The loop has no bound on its rounds. When every status query is
  answered with a pending status, the loop never returns and the handler never
  settles; after \<open>n\<close> rounds, for every \<open>n\<close>, the loop has issued \<open>n\<close> status queries
  and is still running.
\<close>

theorem poll_never_ends:
  assumes "valid_request e body key t"
    and "create_result w = Responds r" and "ok r" and "body_json r = Inr d"
    and "get_prop (Some d) ''id'' = Inr tid"
    and "\<forall>k. pending (status_results w k)"
  shows "poll_loop key (status_results w) tid (poll_start tr) = None
       \<and> did_talk e w body = None
       \<and> loop_result (poll_upto n key (status_results w) tid (poll_start tr)) = None
       \<and> status_queries (step_trace (poll_upto n key (status_results w) tid (poll_start tr)))
           = status_queries tr + n"
proof -
  have "poll_loop key (status_results w) tid (poll_start tr) = None"
    using assms(6) by (intro poll_loop_forever) (simp_all add: poll_start_def)
  moreover have "did_talk e w body = None"
    using assms by (rule run_forever)
  moreover from assms(6) obtain s' where "poll_upto n key (status_results w) tid (poll_start tr) = Again s'"
      and "trace s' = tr @ polls n key tid"
    using poll_upto_pending [of n "status_results w" "poll_start tr" key tid]
    by (auto simp: poll_start_def)
  then have "loop_result (poll_upto n key (status_results w) tid (poll_start tr)) = None
      \<and> status_queries (step_trace (poll_upto n key (status_results w) tid (poll_start tr)))
           = status_queries tr + n"
    by (simp add: status_queries_append status_queries_polls)
  ultimately show ?thesis by simp
qed

theorem poll_never_ends_witness:
  "valid_request env0 req0 ''secret'' hello
   \<and> ok created \<and> body_json created = Inr abc
   \<and> get_prop (Some abc) ''id'' = Inr (Some (JStr ''abc123''))
   \<and> pending (Responds started)
   \<and> poll_loop ''secret'' (always (Responds started)) (Some (JStr ''abc123'')) (poll_start []) = None
   \<and> did_talk env0 \<lparr>create_result = Responds created, status_results = always (Responds started)\<rparr> req0 = None
   \<and> status_queries (step_trace (poll_upto 5 ''secret'' (always (Responds started)) (Some (JStr ''abc123''))
        (poll_start []))) = 5"
proof -
  let ?w = "\<lparr>create_result = Responds created, status_results = always (Responds started)\<rparr>"
  have h: "valid_request env0 req0 ''secret'' hello" "create_result ?w = Responds created"
      "ok created" "body_json created = Inr abc"
      "get_prop (Some abc) ''id'' = Inr (Some (JStr ''abc123''))"
      "\<forall>k. pending (status_results ?w k)"
    by (simp_all add: fx)
  have "pending (Responds started)"
    by (simp add: fx)
  with h poll_never_ends [OF h, of "[]" 5] show ?thesis
    by (simp add: status_queries_Nil)
qed

subsection \<open>C4: the first terminal status\<close>

text \<open>
  Claim C4. When the first \<open>n\<close> status queries are answered with a pending status and
  query \<open>n\<close> with a status \<^verbatim>\<open>done\<close> or \<^verbatim>\<open>error\<close>, the loop returns the value of that
  response after exactly \<open>n + 1\<close> rounds, whatever the provider would answer later,
  and the whole run of the handler holds \<open>n + 1\<close> status queries.
\<close>

theorem poll_stops_at_first_terminal:
  assumes "valid_request e body key t"
    and "create_result w = Responds r" and "ok r" and "body_json r = Inr d"
    and "get_prop (Some d) ''id'' = Inr tid"
    and "\<forall>k<n. pending (status_results w k)"
    and "status_results w n = Responds r'" and "body_json r' = Inr v"
    and "status_of v = Some (JStr ''done'') \<or> status_of v = Some (JStr ''error'')"
  shows "poll_loop key (status_results w) tid (poll_start tr)
           = Some (Inr (Some v), tr @ polls (Suc n) key tid)
       \<and> (\<exists>out tr'. did_talk e w body = Some (out, tr') \<and> status_queries tr' = Suc n)"
proof -
  have "poll_loop key (status_results w) tid (poll_start tr)
           = Some (Inr (Some v), tr @ polls (Suc n) key tid)"
    using assms(6-9) by (rule poll_loop_terminal)
  moreover from assms(9) obtain kvs where v: "v = JObj kvs"
    by (cases v) auto
  have "\<exists>out tr'. did_talk e w body = Some (out, tr') \<and> status_queries tr' = Suc n"
  proof (cases "map_of kvs ''status'' = Some (JStr ''done'')")
    case True
    from run_done [OF assms(1-7) assms(8) [unfolded v] True] show ?thesis
      by (simp add: status_queries_Cons status_queries_Nil status_queries_append status_queries_polls)
  next
    case False
    with assms(9) v have "map_of kvs ''status'' = Some (JStr ''error'')"
      by simp
    from run_error [OF assms(1-7) assms(8) [unfolded v] this] show ?thesis
      by (simp add: status_queries_Cons status_queries_Nil status_queries_append status_queries_polls)
  qed
  ultimately show ?thesis by simp
qed

theorem poll_stops_at_first_terminal_witness:
  "valid_request env0 req0 ''secret'' hello
   \<and> ok created \<and> body_json created = Inr abc
   \<and> get_prop (Some abc) ''id'' = Inr (Some (JStr ''abc123''))
   \<and> pending (two_pending_then (Responds failed) 0) \<and> pending (two_pending_then (Responds failed) 1)
   \<and> two_pending_then (Responds failed) 2 = Responds failed
   \<and> body_json failed = Inr (JObj [(''status'', JStr ''error''), (''detail'', JStr ''synthesis failed'')])
   \<and> poll_loop ''secret'' (two_pending_then (Responds failed)) (Some (JStr ''abc123'')) (poll_start [])
       = Some (Inr (Some (JObj [(''status'', JStr ''error''), (''detail'', JStr ''synthesis failed'')])),
               [Wait 3000, StatusQuery ''secret'' (Some (JStr ''abc123'')),
                Wait 3000, StatusQuery ''secret'' (Some (JStr ''abc123'')),
                Wait 3000, StatusQuery ''secret'' (Some (JStr ''abc123''))])
   \<and> (\<exists>out tr'. did_talk env0 \<lparr>create_result = Responds created,
            status_results = two_pending_then (Responds failed)\<rparr> req0
          = Some (out, tr') \<and> status_queries tr' = 3)"
proof -
  let ?w = "\<lparr>create_result = Responds created, status_results = two_pending_then (Responds failed)\<rparr>"
  let ?v = "JObj [(''status'', JStr ''error''), (''detail'', JStr ''synthesis failed'')]"
  have h: "valid_request env0 req0 ''secret'' hello" "create_result ?w = Responds created"
      "ok created" "body_json created = Inr abc"
      "get_prop (Some abc) ''id'' = Inr (Some (JStr ''abc123''))"
      "\<forall>k<2. pending (status_results ?w k)" "status_results ?w 2 = Responds failed"
      "body_json failed = Inr ?v"
      "status_of ?v = Some (JStr ''done'') \<or> status_of ?v = Some (JStr ''error'')"
    by (simp_all add: fx)
  have "pending (two_pending_then (Responds failed) 0)" "pending (two_pending_then (Responds failed) 1)"
    by (simp_all add: fx)
  with h poll_stops_at_first_terminal [OF h, of "[]"] show ?thesis
    by (simp add: polls_def numeral_3_eq_3)
qed

subsection \<open>C5: a status query that fails\<close>

text \<open>
  Claim C5. When the first \<open>n\<close> status queries are answered with a pending status and
  query \<open>n\<close> fails (\<^verbatim>\<open>fetch\<close> rejects, or \<^verbatim>\<open>json()\<close> rejects because the body cannot be
  read as JSON), the loop is left by that error in round \<open>n + 1\<close>: the error is not
  taken for a pending status, no further query is issued, and the handler
  replies 502 \<^verbatim>\<open>D-ID error\<close> with the message of the error.
\<close>

theorem transport_failure_aborts:
  assumes "valid_request e body key t"
    and "create_result w = Responds r" and "ok r" and "body_json r = Inr d"
    and "get_prop (Some d) ''id'' = Inr tid"
    and "\<forall>k<n. pending (status_results w k)"
    and "failure (status_results w n) = Some err"
  shows "poll_loop key (status_results w) tid (poll_start tr)
           = Some (Inl err, tr @ polls (Suc n) key tid)
       \<and> did_talk e w body = Some (Returned,
           CreateTalk key (create_payload t) # polls (Suc n) key tid @
           [Respond 502 (ErrorDetail ''D-ID error'' (DMessage err))])"
  using poll_loop_failure [OF assms(6,7)] run_failure [OF assms] by simp

theorem transport_failure_aborts_witness:
  "valid_request env0 req0 ''secret'' hello
   \<and> ok created \<and> body_json created = Inr abc
   \<and> get_prop (Some abc) ''id'' = Inr (Some (JStr ''abc123''))
   \<and> pending (two_pending_then (NetworkError ''fetch failed'') 0)
   \<and> pending (two_pending_then (NetworkError ''fetch failed'') 1)
   \<and> failure (two_pending_then (NetworkError ''fetch failed'') 2) = Some (Rejected ''fetch failed'')
   \<and> did_talk env0 \<lparr>create_result = Responds created,
         status_results = two_pending_then (NetworkError ''fetch failed'')\<rparr> req0
       = Some (Returned,
           [CreateTalk ''secret'' (create_payload hello),
            Wait 3000, StatusQuery ''secret'' (Some (JStr ''abc123'')),
            Wait 3000, StatusQuery ''secret'' (Some (JStr ''abc123'')),
            Wait 3000, StatusQuery ''secret'' (Some (JStr ''abc123'')),
            Respond 502 (ErrorDetail ''D-ID error'' (DMessage (Rejected ''fetch failed'')))])"
proof -
  let ?w = "\<lparr>create_result = Responds created,
      status_results = two_pending_then (NetworkError ''fetch failed'')\<rparr>"
  have h: "valid_request env0 req0 ''secret'' hello" "create_result ?w = Responds created"
      "ok created" "body_json created = Inr abc"
      "get_prop (Some abc) ''id'' = Inr (Some (JStr ''abc123''))"
      "\<forall>k<2. pending (status_results ?w k)"
      "failure (status_results ?w 2) = Some (Rejected ''fetch failed'')"
    by (simp_all add: fx)
  have "pending (two_pending_then (NetworkError ''fetch failed'') 0)"
      "pending (two_pending_then (NetworkError ''fetch failed'') 1)"
    by (simp_all add: fx)
  with h transport_failure_aborts [OF h, of "[]"] show ?thesis
    by (simp add: polls_def numeral_3_eq_3)
qed

subsection \<open>C6: a wait before every status query\<close>

text \<open>
  Claim C6. The events of the loop are rounds of one awaited 3000 ms timer followed
  by one status query, and nothing else: after any number \<open>n\<close> of rounds the loop
  has added \<open>polls m\<close> to the trace for some \<open>m \<le> n\<close>, and a loop that returns has
  added \<open>polls (m + 1)\<close> for some \<open>m\<close>. So the first query comes after one full wait
  and every later query after the query before it and one more full wait.
\<close>

theorem queries_follow_waits:
  "(\<exists>m\<le>n. step_trace (poll_upto n key rs tid (poll_start tr)) = tr @ polls m key tid)
   \<and> (\<forall>x tr'. poll_loop key rs tid (poll_start tr) = Some (x, tr')
         \<longrightarrow> (\<exists>m. tr' = tr @ polls (Suc m) key tid))"
  using poll_upto_trace [of n key rs tid "poll_start tr"] poll_loop_first_round [of key rs tid tr]
  by (simp add: poll_start_def)

theorem queries_follow_waits_witness:
  "poll_loop ''secret'' (two_pending_then (Responds done_with_url)) (Some (JStr ''abc123'')) (poll_start [])
     = Some (Inr (Some (JObj [(''status'', JStr ''done''), (''result_url'', JStr ''https://cdn/video.mp4'')])),
         [Wait 3000, StatusQuery ''secret'' (Some (JStr ''abc123'')),
          Wait 3000, StatusQuery ''secret'' (Some (JStr ''abc123'')),
          Wait 3000, StatusQuery ''secret'' (Some (JStr ''abc123''))])
   \<and> (\<exists>m. [Wait 3000, StatusQuery ''secret'' (Some (JStr ''abc123'')),
          Wait 3000, StatusQuery ''secret'' (Some (JStr ''abc123'')),
          Wait 3000, StatusQuery ''secret'' (Some (JStr ''abc123''))]
        = [] @ polls (Suc m) ''secret'' (Some (JStr ''abc123'')))
   \<and> (\<exists>m. m \<le> 2 \<and> step_trace (poll_upto 2 ''secret'' (two_pending_then (Responds done_with_url))
          (Some (JStr ''abc123'')) (poll_start []))
        = [] @ polls m ''secret'' (Some (JStr ''abc123'')))"
proof -
  let ?rs = "two_pending_then (Responds done_with_url)"
  let ?v = "JObj [(''status'', JStr ''done''), (''result_url'', JStr ''https://cdn/video.mp4'')]"
  have "\<forall>k<2. pending (?rs k)" "?rs 2 = Responds done_with_url" "body_json done_with_url = Inr ?v"
    "status_of ?v = Some (JStr ''done'') \<or> status_of ?v = Some (JStr ''error'')"
    by (simp_all add: fx)
  from poll_loop_terminal [OF this, of "''secret''" "Some (JStr ''abc123'')" "[]"]
  have run: "poll_loop ''secret'' ?rs (Some (JStr ''abc123'')) (poll_start [])
     = Some (Inr (Some ?v),
         [Wait 3000, StatusQuery ''secret'' (Some (JStr ''abc123'')),
          Wait 3000, StatusQuery ''secret'' (Some (JStr ''abc123'')),
          Wait 3000, StatusQuery ''secret'' (Some (JStr ''abc123''))])"
    by (simp add: polls_def numeral_2_eq_2)
  with queries_follow_waits [of 2 "''secret''" ?rs "Some (JStr ''abc123'')" "[]"]
  show ?thesis
    by simp
qed

subsection \<open>C7: a request without text\<close>




subsection \<open>C8: a finished job without a result URL\<close>

text \<open>
  Claim C8, as the code has it. When the terminal response has status \<^verbatim>\<open>done\<close> and
  no \<^verbatim>\<open>result_url\<close>, the reply that goes out is the success reply, and its
  \<^verbatim>\<open>videoUrl\<close> is the whole terminal response object: the fall-back of
  \<^verbatim>\<open>talkResult.result_url ?? talkResult\<close>.
\<close>

theorem done_without_url_returns_payload:
  assumes "valid_request e body key t"
    and "create_result w = Responds r" and "ok r" and "body_json r = Inr d"
    and "get_prop (Some d) ''id'' = Inr tid"
    and "\<forall>k<n. pending (status_results w k)"
    and "status_results w n = Responds r'" and "body_json r' = Inr (JObj kvs)"
    and "map_of kvs ''status'' = Some (JStr ''done'')"
    and "map_of kvs ''result_url'' = None"
  shows "\<exists>out tr. did_talk e w body = Some (out,
           CreateTalk key (create_payload t) # polls (Suc n) key tid @
           Respond 200 (VideoUrl (Some (JObj kvs))) # tr)"
  using run_done [OF assms(1-9)] assms(10) by simp

theorem done_without_url_returns_payload_witness:
  "valid_request env0 req0 ''secret'' hello
   \<and> ok created \<and> body_json created = Inr abc
   \<and> get_prop (Some abc) ''id'' = Inr (Some (JStr ''abc123''))
   \<and> pending (two_pending_then (Responds done_no_url) 0)
   \<and> pending (two_pending_then (Responds done_no_url) 1)
   \<and> two_pending_then (Responds done_no_url) 2 = Responds done_no_url
   \<and> body_json done_no_url = Inr (JObj [(''status'', JStr ''done'')])
   \<and> map_of [(''status'', JStr ''done'')] ''result_url'' = None
   \<and> (\<exists>out tr. did_talk env0
          \<lparr>create_result = Responds created, status_results = two_pending_then (Responds done_no_url)\<rparr> req0
        = Some (out,
            CreateTalk ''secret'' (create_payload hello) # polls 3 ''secret'' (Some (JStr ''abc123'')) @
            Respond 200 (VideoUrl (Some (JObj [(''status'', JStr ''done'')]))) # tr))"
proof -
  let ?w = "\<lparr>create_result = Responds created, status_results = two_pending_then (Responds done_no_url)\<rparr>"
  let ?kvs = "[(''status'', JStr ''done'')]"
  have h: "valid_request env0 req0 ''secret'' hello" "create_result ?w = Responds created"
      "ok created" "body_json created = Inr abc"
      "get_prop (Some abc) ''id'' = Inr (Some (JStr ''abc123''))"
      "\<forall>k<2. pending (status_results ?w k)" "status_results ?w 2 = Responds done_no_url"
      "body_json done_no_url = Inr (JObj ?kvs)" "map_of ?kvs ''status'' = Some (JStr ''done'')"
      "map_of ?kvs ''result_url'' = None"
    by (simp_all add: fx)
  have "pending (two_pending_then (Responds done_no_url) 0)"
      "pending (two_pending_then (Responds done_no_url) 1)"
    by (simp_all add: fx)
  with h done_without_url_returns_payload [OF h] show ?thesis
    by (simp add: numeral_3_eq_3)
qed

text \<open>
  The claim as written asks for an empty or unset result reference. With a terminal
  response \<^verbatim>\<open>{"status":"done"}\<close> the \<^verbatim>\<open>videoUrl\<close> of the reply is that object, which
  is neither \<^verbatim>\<open>undefined\<close> nor \<^verbatim>\<open>null\<close> nor the empty string.
\<close>

theorem done_without_url_counterexample:
  "did_talk env0 \<lparr>create_result = Responds created, status_results = always (Responds done_no_url)\<rparr> req0
     = Some (Escaped HeadersSent,
         [CreateTalk ''secret'' (create_payload hello),
          Wait 3000, StatusQuery ''secret'' (Some (JStr ''abc123'')),
          Respond 200 (VideoUrl (Some (JObj [(''status'', JStr ''done'')]))),
          RespondRefused 500 (ErrorDetail ''D-ID processing failed''
            (DValue (Some (JObj [(''status'', JStr ''done'')])))),
          RespondRefused 502 (ErrorDetail ''D-ID error'' (DMessage HeadersSent))])
   \<and> VideoUrl (Some (JObj [(''status'', JStr ''done'')])) \<noteq> VideoUrl None
   \<and> VideoUrl (Some (JObj [(''status'', JStr ''done'')])) \<noteq> VideoUrl (Some JNull)
   \<and> VideoUrl (Some (JObj [(''status'', JStr ''done'')])) \<noteq> VideoUrl (Some (JStr []))"
proof -
  let ?w = "\<lparr>create_result = Responds created, status_results = always (Responds done_no_url)\<rparr>"
  let ?kvs = "[(''status'', JStr ''done'')]"
  have h: "valid_request env0 req0 ''secret'' hello" "create_result ?w = Responds created"
      "ok created" "body_json created = Inr abc"
      "get_prop (Some abc) ''id'' = Inr (Some (JStr ''abc123''))"
      "\<forall>k<(0::nat). pending (status_results ?w k)" "status_results ?w 0 = Responds done_no_url"
      "body_json done_no_url = Inr (JObj ?kvs)" "map_of ?kvs ''status'' = Some (JStr ''done'')"
    by (simp_all add: fx)
  from run_done [OF h] show ?thesis
    by (simp add: polls_def)
qed

subsection \<open>C9: the failure reply after a success\<close>

text \<open>
  Claim C9. When the loop is left with status \<^verbatim>\<open>done\<close>, the handler sends the success
  reply with the video URL and then, since the reply statement of line 177 is not
  in an \<^verbatim>\<open>else\<close> branch, also executes the 500 \<^verbatim>\<open>D-ID processing failed\<close> reply
  statement with the terminal response as its detail: one request, two reply
  attempts in the \<^verbatim>\<open>try\<close> block. The second attempt is refused because a reply has
  gone out; it throws, and the catch block makes one more attempt, refused too.
\<close>

theorem done_also_attempts_failure_reply:
  assumes "valid_request e body key t"
    and "create_result w = Responds r" and "ok r" and "body_json r = Inr d"
    and "get_prop (Some d) ''id'' = Inr tid"
    and "\<forall>k<n. pending (status_results w k)"
    and "status_results w n = Responds r'" and "body_json r' = Inr (JObj kvs)"
    and "map_of kvs ''status'' = Some (JStr ''done'')"
  shows "did_talk e w body = Some (Escaped HeadersSent,
           CreateTalk key (create_payload t) # polls (Suc n) key tid @
           [Respond 200 (VideoUrl (nullish (map_of kvs ''result_url'') (Some (JObj kvs)))),
            RespondRefused 500 (ErrorDetail ''D-ID processing failed'' (DValue (Some (JObj kvs)))),
            RespondRefused 502 (ErrorDetail ''D-ID error'' (DMessage HeadersSent))])"
  using assms by (rule run_done)

theorem done_also_attempts_failure_reply_witness:
  "valid_request env0 req0 ''secret'' hello
   \<and> ok created \<and> body_json created = Inr abc
   \<and> get_prop (Some abc) ''id'' = Inr (Some (JStr ''abc123''))
   \<and> pending (two_pending_then (Responds done_with_url) 0)
   \<and> pending (two_pending_then (Responds done_with_url) 1)
   \<and> two_pending_then (Responds done_with_url) 2 = Responds done_with_url
   \<and> body_json done_with_url
       = Inr (JObj [(''status'', JStr ''done''), (''result_url'', JStr ''https://cdn/video.mp4'')])
   \<and> did_talk env0
        \<lparr>create_result = Responds created, status_results = two_pending_then (Responds done_with_url)\<rparr> req0
       = Some (Escaped HeadersSent,
           [CreateTalk ''secret'' (create_payload hello),
            Wait 3000, StatusQuery ''secret'' (Some (JStr ''abc123'')),
            Wait 3000, StatusQuery ''secret'' (Some (JStr ''abc123'')),
            Wait 3000, StatusQuery ''secret'' (Some (JStr ''abc123'')),
            Respond 200 (VideoUrl (Some (JStr ''https://cdn/video.mp4''))),
            RespondRefused 500 (ErrorDetail ''D-ID processing failed''
              (DValue (Some (JObj [(''status'', JStr ''done''), (''result_url'', JStr ''https://cdn/video.mp4'')])))),
            RespondRefused 502 (ErrorDetail ''D-ID error'' (DMessage HeadersSent))])"
proof -
  let ?w = "\<lparr>create_result = Responds created, status_results = two_pending_then (Responds done_with_url)\<rparr>"
  let ?kvs = "[(''status'', JStr ''done''), (''result_url'', JStr ''https://cdn/video.mp4'')]"
  have h: "valid_request env0 req0 ''secret'' hello" "create_result ?w = Responds created"
      "ok created" "body_json created = Inr abc"
      "get_prop (Some abc) ''id'' = Inr (Some (JStr ''abc123''))"
      "\<forall>k<2. pending (status_results ?w k)" "status_results ?w 2 = Responds done_with_url"
      "body_json done_with_url = Inr (JObj ?kvs)" "map_of ?kvs ''status'' = Some (JStr ''done'')"
    by (simp_all add: fx)
  have "pending (two_pending_then (Responds done_with_url) 0)"
      "pending (two_pending_then (Responds done_with_url) 1)"
    by (simp_all add: fx)
  with h done_also_attempts_failure_reply [OF h] show ?thesis
    by (simp add: polls_def numeral_3_eq_3)
qed

subsection \<open>C10: the avatar image\<close>

text \<open>
  Claim C10. The \<^verbatim>\<open>source_url\<close> of the job-creation payload is the string literal of
  line 115 for every request text, and \<^verbatim>\<open>DID_SOURCE_URL\<close> has no effect on a run:
  \<^verbatim>\<open>sourceUrl\<close>, read from it with a non-empty default, is only tested in the guard
  of line 103, where it is always truthy. Two runs that differ in
  \<^verbatim>\<open>DID_SOURCE_URL\<close> alone are the same run, payload included.
\<close>

theorem source_url_fixed:
  "source_url (create_payload t) = ''https://d-id-public-bucket.s3.us-west-2.amazonaws.com/alice.jpg''
   \<and> did_talk (e\<lparr>DID_SOURCE_URL := u\<rparr>) w body = did_talk e w body"
  by (simp add: create_payload_def did_talk_guards split: sum.splits)

theorem source_url_fixed_witness:
  "source_url (create_payload hello)
     = ''https://d-id-public-bucket.s3.us-west-2.amazonaws.com/alice.jpg''
   \<and> did_talk (env0\<lparr>DID_SOURCE_URL := Some ''https://example.org/me.png''\<rparr>)
        \<lparr>create_result = Responds created, status_results = always (Responds failed)\<rparr> req0
     = did_talk env0 \<lparr>create_result = Responds created, status_results = always (Responds failed)\<rparr> req0"
  using source_url_fixed [where t = hello and e = env0
      and u = "Some ''https://example.org/me.png''"
      and w = "\<lparr>create_result = Responds created, status_results = always (Responds failed)\<rparr>"
      and body = req0]
  by simp

end
